theory Spec2Isabelle
  imports Complex_Main "HOL-Library.Sublist"
begin

section \<open>JavaScript values\<close>

text \<open>
  The directive map of \<^verbatim>\<open>shouldCache\<close> is a \<^verbatim>\<open>Record<string, any>\<close> and the arguments of the
  overridden \<^verbatim>\<open>write\<close>/\<^verbatim>\<open>end\<close> are \<^verbatim>\<open>any[]\<close>, so values are modelled by their JavaScript
  kind. A finite number is a rational (every finite double is one; \<^verbatim>\<open>-0\<close> and \<^verbatim>\<open>0\<close> are not
  told apart, which neither truthiness nor \<^verbatim>\<open>=== 0\<close> does), \<^verbatim>\<open>NaN\<close> and the two infinities
  are separate. A \<^verbatim>\<open>Buffer\<close> carries its bytes; every other object is \<open>JObject\<close>.
\<close>

datatype js_value =
    JUndefined
  | JNull
  | JBool bool
  | JNum rat
  | JNaN
  | JInfinity bool
  | JBigInt int
  | JString string
  | JBuffer string
  | JObject

text \<open>ToBoolean: what \<^verbatim>\<open>if (v)\<close> and \<^verbatim>\<open>a || b\<close> test.\<close>

fun truthy :: "js_value \<Rightarrow> bool" where
  "truthy JUndefined = False"
| "truthy JNull = False"
| "truthy (JBool b) = b"
| "truthy (JNum r) = (r \<noteq> 0)"
| "truthy JNaN = False"
| "truthy (JInfinity _) = True"
| "truthy (JBigInt i) = (i \<noteq> 0)"
| "truthy (JString s) = (s \<noteq> [])"
| "truthy (JBuffer _) = True"
| "truthy JObject = True"

text \<open>\<^verbatim>\<open>v === n\<close> for a number literal \<open>n\<close>: no conversion, only the number itself is equal.\<close>

definition strictEqualsNum :: "js_value \<Rightarrow> rat \<Rightarrow> bool" where
  "strictEqualsNum v n = (v = JNum n)"

text \<open>\<^verbatim>\<open>obj[key]\<close> on a plain record: a key that is not set reads as \<^verbatim>\<open>undefined\<close>.\<close>

definition getProp :: "(string \<rightharpoonup> js_value) \<Rightarrow> string \<Rightarrow> js_value" where
  "getProp obj k = (case obj k of None \<Rightarrow> JUndefined | Some v \<Rightarrow> v)"

section \<open>should-cache.ts\<close>

text \<open>
  \<^verbatim>\<open>shouldCache(cacheControl: Record<string, any> | null)\<close>; \<open>None\<close> is \<^verbatim>\<open>null\<close>. An object is
  always truthy, so \<^verbatim>\<open>!cacheControl\<close> holds for \<^verbatim>\<open>null\<close> only.
\<close>

definition shouldCache :: "(string \<rightharpoonup> js_value) option \<Rightarrow> bool" where
  "shouldCache cacheControl =
     (case cacheControl of
        None \<Rightarrow> True
      | Some cc \<Rightarrow>
          (let noCache = getProp cc ''no-cache'';
               noStore = getProp cc ''no-store'';
               isPrivate = getProp cc ''private'';
               maxAge = getProp cc ''max-age''
           in if truthy noCache \<or> truthy noStore \<or> truthy isPrivate \<or> strictEqualsNum maxAge 0
              then False
              else True))"


section \<open>Data model of the middleware\<close>

text \<open>
  Modelled from the spec: \<^verbatim>\<open>types.ts\<close> and \<^verbatim>\<open>chunk.ts\<close> are not among the sources. A chunk
  identity is "derived from the owning request's capture session plus its sequence
  position", hence the pair of the session's request id and the position.
\<close>

type_synonym chunk_ref = "string \<times> nat"

text \<open>
  \<^verbatim>\<open>CachedResponse\<close>: the two fields \<^verbatim>\<open>middleware.ts\<close> reads. Status code and headers, which only
  replay needs, are left out.
\<close>

record cached_response =
  isSealed :: bool
  chunks :: "chunk_ref list"

text \<open>A thrown \<^verbatim>\<open>Error\<close>, or the reason of a rejected promise, with its message.\<close>

datatype js_error = Error string

text \<open>
  Modelled from the spec: the store backends (\<^verbatim>\<open>stores/\<close>) are not among the sources. The
  three buckets \<^verbatim>\<open>store<CachedResponse>()\<close>, \<^verbatim>\<open>store<Chunk>()\<close> and \<^verbatim>\<open>store<string>()\<close> follow the
  store contract \<^verbatim>\<open>get(key) -> value | absent\<close>, \<^verbatim>\<open>set(key, value, ttl) -> ack\<close>,
  \<^verbatim>\<open>has(key) -> bool\<close>, all asynchronous. An entry is kept with the time-to-live it was set
  with, in seconds, \<open>None\<close> for no expiry; expiry itself is a matter of real time and is not
  modelled: an expired or evicted entry is an absent key. The three buckets come from one
  backend, and a "storage failure" is that "a store operation rejects": \<open>rejecting\<close> tells
  whether the backend rejects the operations it is asked for at this moment.
\<close>

record cache_state =
  responseBucket :: "string \<rightharpoonup> cached_response \<times> rat option"
  chunkBucket :: "chunk_ref \<rightharpoonup> js_value \<times> rat option"
  cacheKeyBucket :: "string \<rightharpoonup> string \<times> rat option"
  rejecting :: bool

text \<open>Modelled from the spec: the reason with which a store operation rejects.\<close>

definition storeError :: js_error where
  "storeError = Error ''store operation rejected''"

text \<open>
  Modelled from the spec: \<^verbatim>\<open>get(key) -> value | absent\<close>, or a rejection; \<open>rej\<close> tells whether
  the backend rejects.
\<close>

definition store_get :: "bool \<Rightarrow> ('k \<rightharpoonup> 'v \<times> rat option) \<Rightarrow> 'k \<Rightarrow> js_error + 'v option" where
  "store_get rej bucket k = (if rej then Inl storeError else Inr (map_option fst (bucket k)))"

text \<open>Modelled from the spec: \<^verbatim>\<open>set(key, value, ttl) -> ack\<close>, or a rejection.\<close>

definition store_set ::
  "bool \<Rightarrow> ('k \<rightharpoonup> 'v \<times> rat option) \<Rightarrow> 'k \<Rightarrow> 'v \<Rightarrow> rat option
     \<Rightarrow> js_error + ('k \<rightharpoonup> 'v \<times> rat option)"
where
  "store_set rej bucket k v ttl = (if rej then Inl storeError else Inr (bucket(k \<mapsto> (v, ttl))))"

text \<open>
  Modelled from the spec: \<^verbatim>\<open>has(key) -> bool\<close>, or a rejection; "a has(key) over a sequence of
  chunk keys must hold for every element for a response to be treated as replayable".
\<close>

definition store_has :: "bool \<Rightarrow> ('k \<rightharpoonup> 'v \<times> rat option) \<Rightarrow> 'k list \<Rightarrow> js_error + bool" where
  "store_has rej bucket ks =
     (if rej then Inl storeError else Inr (list_all (\<lambda>k. bucket k \<noteq> None) ks))"

section \<open>middleware.ts: purge\<close>

text \<open>
  \<^verbatim>\<open>purge\<close> is an \<^verbatim>\<open>async\<close> function whose body is a single \<^verbatim>\<open>throw\<close>: the promise it returns
  is rejected with the error, and no bucket is touched. The result pairs the outcome with the
  buckets after the call.
\<close>

definition purge :: "string \<Rightarrow> cache_state \<Rightarrow> (js_error + unit) \<times> cache_state" where
  "purge cacheTag st =
     (Inl (Error (''purge for cache tag '' @ cacheTag @
                  '' not implemented - API could still change - do not use'')), st)"

section \<open>The ordering queue\<close>

text \<open>
  A queued unit of work. \<^verbatim>\<open>onWrite\<close> pushes the closure \<^verbatim>\<open>() => cacheChunk({..., chunk, ...})\<close>,
  \<^verbatim>\<open>onFinish\<close> pushes \<^verbatim>\<open>() => sealChunks({...})\<close>; the closure is represented by the call it
  makes.
\<close>

datatype task = CacheChunk js_value | SealChunks

text \<open>
  Modelled from the spec: \<^verbatim>\<open>utils.ts\<close> (class \<^verbatim>\<open>Queue\<close>) is not among the sources. "push(task)
  appends an asynchronous unit of work to a FIFO list bound to one capture session; run()
  ensures the list is being drained, starting a drain loop if one is not already active. At
  most one task executes at a time, and task N+1 does not begin until task N has fully
  completed (success or failure)." \<open>tasks\<close> is the FIFO list of the tasks not yet begun,
  \<open>running\<close> the task the drain loop is executing, if one is active, and \<open>reported\<close> the failed
  tasks the loop has reported, each with the reason of its failure.
\<close>

record queue =
  tasks :: "task list"
  running :: "task option"
  reported :: "(task \<times> js_error) list"

text \<open>Modelled from the spec: a new queue holds no task and no drain loop is active.\<close>

definition new_Queue :: queue where
  "new_Queue = \<lparr>tasks = [], running = None, reported = []\<rparr>"

text \<open>Modelled from the spec: "push(task) appends an asynchronous unit of work to a FIFO list".\<close>

definition push :: "task \<Rightarrow> queue \<Rightarrow> queue" where
  "push t q = q\<lparr>tasks := tasks q @ [t]\<rparr>"

text \<open>
  Modelled from the spec: the drain loop takes the head of the list as the next task to
  execute, or stops when the list is empty.
\<close>

definition drain_next :: "queue \<Rightarrow> queue" where
  "drain_next q =
     (case tasks q of
        [] \<Rightarrow> q\<lparr>running := None\<rparr>
      | t # ts \<Rightarrow> q\<lparr>tasks := ts, running := Some t\<rparr>)"

text \<open>
  Modelled from the spec: "run() ensures the list is being drained, starting a drain loop if
  one is not already active".
\<close>

definition run :: "queue \<Rightarrow> queue" where
  "run q = (if running q \<noteq> None then q else drain_next q)"

text \<open>
  Modelled from the spec: "a failed task does not halt the queue silently; it is reported
  (logged) and the drain continues with the next task".
\<close>

definition report_failure :: "task \<Rightarrow> js_error \<Rightarrow> queue \<Rightarrow> queue" where
  "report_failure t err q = drain_next (q\<lparr>reported := reported q @ [(t, err)]\<rparr>)"

text \<open>All tasks pushed and not yet completed, in the order in which they complete.\<close>

definition pending :: "queue \<Rightarrow> task list" where
  "pending q = (case running q of None \<Rightarrow> [] | Some t \<Rightarrow> [t]) @ tasks q"

section \<open>Requests, responses, options\<close>

text \<open>\<open>req_method\<close> is \<^verbatim>\<open>req.method\<close>.\<close>

record request =
  req_method :: string
  originalUrl :: string

text \<open>
  What the closures of \<^verbatim>\<open>getChunkFunctions\<close> hold: the id \<^verbatim>\<open>nanoid()\<close> returned, the cache key,
  the queue created by \<^verbatim>\<open>new Queue()\<close>, and \<^verbatim>\<open>defaultMaxAge\<close> of the enclosing scope, which
  \<^verbatim>\<open>onWrite\<close> hands to \<^verbatim>\<open>cacheChunk\<close>.
\<close>

record session =
  requestId :: string
  cacheKey :: string
  defaultMaxAge :: "rat option"
  chunkQueue :: queue

text \<open>
  The response object. \<open>aggressiveCache\<close> is \<^verbatim>\<open>res.aggressiveCache.chunks\<close>. \<open>capture\<close> is
  \<open>Some s\<close> once \<^verbatim>\<open>handleCacheMiss\<close> has replaced \<^verbatim>\<open>res.write\<close> and \<^verbatim>\<open>res.end\<close> by its wrappers and
  registered \<^verbatim>\<open>onFinish\<close> for the \<^verbatim>\<open>finish\<close> event, \<open>s\<close> being the session these closures share.
  \<open>cache_control\<close> is the directive map of the response's \<^verbatim>\<open>Cache-Control\<close> header, \<open>None\<close>
  without the header; the handler sets its headers before its first write and they cannot
  change afterwards, so every task of a session reads the same directives. \<open>out\<close> is
  whatever the original \<^verbatim>\<open>write\<close> and \<^verbatim>\<open>end\<close> act on: the real output to the client.
\<close>

record 'o response =
  aggressiveCache :: "chunk_ref list"
  capture :: "session option"
  cache_control :: "(string \<rightharpoonup> js_value) option"
  out :: 'o

text \<open>
  The options after the defaults are merged in. The store is the bucket model above. The
  callbacks \<^verbatim>\<open>onCacheHit\<close> and \<^verbatim>\<open>onCacheMiss\<close> are opaque: a call is recorded as an event.
  \<open>defaultGetCacheKey\<close> is the imported function of that name (\<^verbatim>\<open>cache-key.ts\<close> is not among the
  sources), taken as a parameter like the options. \<open>maxAge\<close> is in seconds, \<open>None\<close> for
  \<^verbatim>\<open>undefined\<close>.
\<close>

record options =
  debug :: bool
  maxAge :: "rat option"
  defaultGetCacheKey :: "request \<Rightarrow> string"
  getCacheKey :: "request \<Rightarrow> string \<Rightarrow> string"
  getCacheTag :: "(request \<Rightarrow> string option) option"

text \<open>What the middleware does to its collaborators, in order.\<close>

datatype event =
    Log "string list"
  | OnCacheHit
  | OnCacheMiss
  | GetCacheTag
  | CacheKeyBucketSet string string
  | ResponseBucketGet string
  | ChunkBucketHas "chunk_ref list"
  | ReturnCachedResponse cached_response
  | Next

section \<open>Chunk tasks\<close>

text \<open>
  Modelled from the spec: \<^verbatim>\<open>chunk.ts\<close> (\<^verbatim>\<open>cacheChunk\<close>, \<^verbatim>\<open>sealChunks\<close>) is not among the sources.
  A chunk's content is an "opaque byte payload, may be zero-length (flush markers) but
  null/absent chunks are not persisted".
\<close>

definition isPayload :: "js_value \<Rightarrow> bool" where
  "isPayload chunk = (chunk \<noteq> JNull \<and> chunk \<noteq> JUndefined)"

text \<open>
  Modelled from the spec: the time-to-live policy is to "prefer a cacheability directive
  present on the outgoing response (an explicit max-age-equivalent) over a statically
  configured default". \<open>responseMaxAge\<close> is the number the response gives as \<^verbatim>\<open>max-age\<close>, if
  it gives one.
\<close>

definition responseMaxAge :: "(string \<rightharpoonup> js_value) option \<Rightarrow> rat option" where
  "responseMaxAge cc =
     (case cc of
        None \<Rightarrow> None
      | Some m \<Rightarrow> (case getProp m ''max-age'' of JNum n \<Rightarrow> Some n | _ \<Rightarrow> None))"

text \<open>Modelled from the spec: the directive of the response, else the configured default.\<close>

definition timeToLive :: "rat option \<Rightarrow> (string \<rightharpoonup> js_value) option \<Rightarrow> rat option" where
  "timeToLive dflt cc = (case responseMaxAge cc of Some n \<Rightarrow> Some n | None \<Rightarrow> dflt)"

text \<open>
  Modelled from the spec: the chunk task "(a) stores the chunk under its identity with the
  configured time-to-live, and (b) appends the chunk's identity to the in-progress
  CachedResponse.chunks sequence, persisting that updated record". The identity is the
  session's request id with the sequence number, which is the number of chunks appended so
  far. A null or absent chunk is not persisted, and "a response explicitly marked
  non-cacheable (no-cache / no-store / private / zero max-age)" is "never persisted even if
  capture was attached": the task then does nothing. A store operation that rejects makes
  the task fail with that reason.
\<close>

definition cacheChunk ::
  "string \<Rightarrow> string \<Rightarrow> rat option \<Rightarrow> js_value \<Rightarrow> cache_state \<times> 'o response
     \<Rightarrow> js_error + cache_state \<times> 'o response"
where
  "cacheChunk rid key dflt chunk w =
     (case w of (st, res) \<Rightarrow>
        if \<not> isPayload chunk then Inr (st, res)
        else if \<not> shouldCache (cache_control res) then Inr (st, res)
        else
          (let ttl = timeToLive dflt (cache_control res);
               chunkId = (rid, length (aggressiveCache res))
           in case store_set (rejecting st) (chunkBucket st) chunkId chunk ttl of
                Inl err \<Rightarrow> Inl err
              | Inr cb \<Rightarrow>
                  (let st1 = st\<lparr>chunkBucket := cb\<rparr>;
                       res1 = res\<lparr>aggressiveCache := aggressiveCache res @ [chunkId]\<rparr>
                   in case store_set (rejecting st1) (responseBucket st1) key
                             \<lparr>isSealed = False, chunks = aggressiveCache res1\<rparr> ttl of
                        Inl err \<Rightarrow> Inl err
                      | Inr rb \<Rightarrow> Inr (st1\<lparr>responseBucket := rb\<rparr>, res1))))"

text \<open>
  Modelled from the spec: the sealing task "marks isSealed = true on the CachedResponse and
  persists it"; a non-cacheable response is never persisted, so its sealing task does
  nothing. \<^verbatim>\<open>onFinish\<close> does not hand \<^verbatim>\<open>defaultMaxAge\<close> to \<^verbatim>\<open>sealChunks\<close>: the time-to-live is the
  one the response gives, if any. A store operation that rejects makes the task fail.
\<close>

definition sealChunks ::
  "string \<Rightarrow> string \<Rightarrow> cache_state \<times> 'o response \<Rightarrow> js_error + cache_state \<times> 'o response"
where
  "sealChunks rid key w =
     (case w of (st, res) \<Rightarrow>
        if \<not> shouldCache (cache_control res) then Inr (st, res)
        else
          (case store_set (rejecting st) (responseBucket st) key
                  \<lparr>isSealed = True, chunks = aggressiveCache res\<rparr>
                  (responseMaxAge (cache_control res)) of
             Inl err \<Rightarrow> Inl err
           | Inr rb \<Rightarrow> Inr (st\<lparr>responseBucket := rb\<rparr>, res)))"

text \<open>
  Running a queued closure is making the call it stands for. \<^verbatim>\<open>cacheChunk\<close> is also handed
  \<^verbatim>\<open>log\<close> and the queue itself; the spec gives it no use of them.
\<close>

definition run_task ::
  "session \<Rightarrow> task \<Rightarrow> cache_state \<times> 'o response \<Rightarrow> js_error + cache_state \<times> 'o response"
where
  "run_task s t w =
     (case t of
        CacheChunk chunk \<Rightarrow> cacheChunk (requestId s) (cacheKey s) (defaultMaxAge s) chunk w
      | SealChunks \<Rightarrow> sealChunks (requestId s) (cacheKey s) w)"

section \<open>middleware.ts\<close>

definition log :: "options \<Rightarrow> string list \<Rightarrow> event list" where
  "log opts msg = (if \<not> debug opts then [] else [Log msg])"

text \<open>
  An \<^verbatim>\<open>async\<close> function of \<^verbatim>\<open>middleware.ts\<close> yields \<open>Inl\<close> of the reason when the promise it
  returns is rejected. None of them has a \<^verbatim>\<open>try\<close>: an awaited store operation that rejects
  rejects the function that awaits it. The awaited callbacks (\<^verbatim>\<open>onCacheHit\<close>, \<^verbatim>\<open>onCacheMiss\<close>,
  \<^verbatim>\<open>getCacheKey\<close>, \<^verbatim>\<open>getCacheTag\<close>, \<^verbatim>\<open>returnCachedResponse\<close>) are taken to resolve.
  \<^verbatim>\<open>cacheKeyBucket.set\<close> is called without a time-to-live.
\<close>

definition updateCacheKeyBucketOptional ::
  "options \<Rightarrow> request \<Rightarrow> string \<Rightarrow> cache_state \<Rightarrow> js_error + event list \<times> cache_state"
where
  "updateCacheKeyBucketOptional opts req key st =
     (case getCacheTag opts of
        None \<Rightarrow> Inr ([], st)
      | Some f \<Rightarrow>
          (case f req of
             None \<Rightarrow> Inr ([GetCacheTag], st)
           | Some cacheTag \<Rightarrow>
               (case store_set (rejecting st) (cacheKeyBucket st) cacheTag key None of
                  Inl err \<Rightarrow> Inl err
                | Inr kb \<Rightarrow>
                    Inr ([GetCacheTag, CacheKeyBucketSet cacheTag key],
                         st\<lparr>cacheKeyBucket := kb\<rparr>))))"

text \<open>
  \<^verbatim>\<open>cachedResponse?.isSealed\<close> is \<^verbatim>\<open>undefined\<close>, hence falsy, for an absent record.
\<close>

definition checkAndHandleCacheHit ::
  "options \<Rightarrow> cached_response option \<Rightarrow> string \<Rightarrow> cache_state \<Rightarrow> js_error + bool \<times> event list"
where
  "checkAndHandleCacheHit opts cachedResponse key st =
     (case cachedResponse of
        None \<Rightarrow> Inr (False, [])
      | Some cr \<Rightarrow>
          if isSealed cr then
            (case store_has (rejecting st) (chunkBucket st) (chunks cr) of
               Inl err \<Rightarrow> Inl err
             | Inr True \<Rightarrow>
                 Inr (True, [ChunkBucketHas (chunks cr)] @ log opts [''HIT:'', key]
                            @ [OnCacheHit, ReturnCachedResponse cr])
             | Inr False \<Rightarrow>
                 Inr (False, [ChunkBucketHas (chunks cr)] @ log opts [''chunk missing'']))
          else Inr (False, []))"

section \<open>middleware.ts: capture\<close>

definition getChunkFunctions :: "options \<Rightarrow> string \<Rightarrow> string \<Rightarrow> session" where
  "getChunkFunctions opts rid key =
     \<lparr>requestId = rid, cacheKey = key, defaultMaxAge = maxAge opts, chunkQueue = new_Queue\<rparr>"

definition onWrite :: "js_value \<Rightarrow> session \<Rightarrow> session" where
  "onWrite chunk s =
     (if chunk \<noteq> JUndefined
      then s\<lparr>chunkQueue := run (push (CacheChunk chunk) (chunkQueue s))\<rparr>
      else s)"

definition onFinish :: "session \<Rightarrow> session" where
  "onFinish s = s\<lparr>chunkQueue := run (push SealChunks (chunkQueue s))\<rparr>"

definition handleCacheMiss ::
  "options \<Rightarrow> request \<Rightarrow> 'o response \<Rightarrow> session \<Rightarrow> string \<Rightarrow> cache_state
     \<Rightarrow> js_error + event list \<times> cache_state \<times> 'o response"
where
  "handleCacheMiss opts req res s key st =
     (case updateCacheKeyBucketOptional opts req key st of
        Inl err \<Rightarrow> Inl err
      | Inr (evs, st1) \<Rightarrow>
          Inr (log opts [''MISS - key not found:'', key] @ [OnCacheMiss] @ evs,
               st1, res\<lparr>capture := Some s\<rparr>))"

definition handleNonGetRequestsAsCacheMiss :: "options \<Rightarrow> request \<Rightarrow> bool \<times> event list" where
  "handleNonGetRequestsAsCacheMiss opts req =
     (if req_method req \<noteq> ''GET''
      then (True, log opts [''MISS - not a GET request''] @ [OnCacheMiss])
      else (False, []))"

text \<open>
  The middleware, for the request \<open>req\<close> and the id \<open>rid\<close> that \<^verbatim>\<open>nanoid()\<close> returns for it. When
  its promise resolves it yields the events in order, the buckets and the response object
  afterwards; when an awaited store operation rejects, its promise is rejected with that
  reason. \<open>Next\<close> is the call \<^verbatim>\<open>next()\<close> that hands the request to the handler.
\<close>

definition middleware ::
  "options \<Rightarrow> string \<Rightarrow> request \<Rightarrow> cache_state \<times> 'o response
     \<Rightarrow> js_error + event list \<times> cache_state \<times> 'o response"
where
  "middleware opts rid req w =
     (case w of (st, res) \<Rightarrow>
        (case handleNonGetRequestsAsCacheMiss opts req of
           (True, evs0) \<Rightarrow> Inr (evs0 @ [Next], st, res)
         | (False, evs0) \<Rightarrow>
             (let normalizedPath = defaultGetCacheKey opts req;
                  key = getCacheKey opts req normalizedPath;
                  res1 = res\<lparr>aggressiveCache := []\<rparr>;
                  s = getChunkFunctions opts rid key
              in case store_get (rejecting st) (responseBucket st) key of
                   Inl err \<Rightarrow> Inl err
                 | Inr cachedResponse \<Rightarrow>
                     (case checkAndHandleCacheHit opts cachedResponse key st of
                        Inl err \<Rightarrow> Inl err
                      | Inr (True, evs1) \<Rightarrow>
                          Inr (evs0 @ [ResponseBucketGet key] @ evs1, st, res1)
                      | Inr (False, evs1) \<Rightarrow>
                          (case handleCacheMiss opts req res1 s key st of
                             Inl err \<Rightarrow> Inl err
                           | Inr (evs2, st2, res2) \<Rightarrow>
                               Inr (evs0 @ [ResponseBucketGet key] @ evs1 @ evs2 @ [Next],
                                    st2, res2))))))"

section \<open>The response under capture\<close>

text \<open>\<^verbatim>\<open>args[0]\<close> of a rest parameter: \<^verbatim>\<open>undefined\<close> when the call has no argument.\<close>

definition arg0 :: "js_value list \<Rightarrow> js_value" where
  "arg0 args = (case args of [] \<Rightarrow> JUndefined | a # _ \<Rightarrow> a)"

text \<open>
  The two functions \<^verbatim>\<open>handleCacheMiss\<close> installs as \<^verbatim>\<open>res.write\<close> and \<^verbatim>\<open>res.end\<close>. The original
  function is any function of the arguments and the real output that returns a value. The
  hook \<^verbatim>\<open>onWrite\<close> only pushes a closure and has the queue run: the store operations are made
  by the task, later, and their failure is a failure of the task, not of the hook.
\<close>

definition write_override ::
  "(js_value list \<Rightarrow> 'o \<Rightarrow> 'r \<times> 'o) \<Rightarrow> js_value list \<Rightarrow> session \<times> 'o \<Rightarrow> 'r \<times> session \<times> 'o"
where
  "write_override originalWrite args so =
     (case so of (s, ou) \<Rightarrow>
        (let s1 = onWrite (arg0 args) s
         in case originalWrite args ou of (ret, ou1) \<Rightarrow> (ret, s1, ou1)))"

definition end_override ::
  "(js_value list \<Rightarrow> 'o \<Rightarrow> 'r \<times> 'o) \<Rightarrow> js_value list \<Rightarrow> session \<times> 'o \<Rightarrow> 'r \<times> session \<times> 'o"
where
  "end_override originalEnd args so =
     (case so of (s, ou) \<Rightarrow>
        (let s1 = onWrite (arg0 args) s
         in case originalEnd args ou of (ret, ou1) \<Rightarrow> (ret, s1, ou1)))"

text \<open>A call of \<^verbatim>\<open>res.write\<close> or \<^verbatim>\<open>res.end\<close> by the handler, and the \<^verbatim>\<open>finish\<close> event.\<close>

definition res_write ::
  "(js_value list \<Rightarrow> 'o \<Rightarrow> 'r \<times> 'o) \<Rightarrow> js_value list \<Rightarrow> 'o response \<Rightarrow> 'r \<times> 'o response"
where
  "res_write originalWrite args res =
     (case capture res of
        None \<Rightarrow> (case originalWrite args (out res) of (ret, ou1) \<Rightarrow> (ret, res\<lparr>out := ou1\<rparr>))
      | Some s \<Rightarrow>
          (case write_override originalWrite args (s, out res) of
             (ret, s1, ou1) \<Rightarrow> (ret, res\<lparr>capture := Some s1, out := ou1\<rparr>)))"

definition res_end ::
  "(js_value list \<Rightarrow> 'o \<Rightarrow> 'r \<times> 'o) \<Rightarrow> js_value list \<Rightarrow> 'o response \<Rightarrow> 'r \<times> 'o response"
where
  "res_end originalEnd args res =
     (case capture res of
        None \<Rightarrow> (case originalEnd args (out res) of (ret, ou1) \<Rightarrow> (ret, res\<lparr>out := ou1\<rparr>))
      | Some s \<Rightarrow>
          (case end_override originalEnd args (s, out res) of
             (ret, s1, ou1) \<Rightarrow> (ret, res\<lparr>capture := Some s1, out := ou1\<rparr>)))"

definition res_finish :: "'o response \<Rightarrow> 'o response" where
  "res_finish res =
     (case capture res of
        None \<Rightarrow> res
      | Some s \<Rightarrow> res\<lparr>capture := Some (onFinish s)\<rparr>)"

section \<open>One capture session over time\<close>

text \<open>
  Modelled from the spec: the task the drain loop is executing completes. When its store
  operations succeed they take effect; when one rejects, the task has failed: its mutation
  is abandoned and the failure is reported ("recovered locally by logging and abandoning
  that chunk/response mutation"). Either way only then the loop begins the next task of the
  list ("task N+1 does not begin until task N has fully completed (success or failure)").
\<close>

definition settle :: "cache_state \<times> 'o response \<Rightarrow> cache_state \<times> 'o response" where
  "settle w =
     (case capture (snd w) of
        None \<Rightarrow> w
      | Some s \<Rightarrow>
          (case running (chunkQueue s) of
             None \<Rightarrow> w
           | Some t \<Rightarrow>
               (case run_task s t w of
                  Inr (st1, res1) \<Rightarrow>
                    (st1, res1\<lparr>capture := Some (s\<lparr>chunkQueue := drain_next (chunkQueue s)\<rparr>)\<rparr>)
                | Inl err \<Rightarrow>
                    (fst w,
                     (snd w)\<lparr>capture :=
                               Some (s\<lparr>chunkQueue := report_failure t err (chunkQueue s)\<rparr>)\<rparr>))))"

text \<open>
  What can happen to a response after the middleware has returned: the handler calls
  \<^verbatim>\<open>res.write\<close> or \<^verbatim>\<open>res.end\<close>, the \<^verbatim>\<open>finish\<close> event fires, the store operations of the running
  task complete (\<open>Settle\<close>), or the store backend begins or ceases to reject its operations.
  A schedule is any list of these; the position of the \<open>Settle\<close>s among the other events is
  the latency of the store.
\<close>

datatype sched =
    HandlerWrite "js_value list"
  | HandlerEnd "js_value list"
  | Finish
  | Settle
  | StoreFails
  | StoreRecovers

definition step ::
  "(js_value list \<Rightarrow> 'o \<Rightarrow> 'r \<times> 'o) \<Rightarrow> (js_value list \<Rightarrow> 'o \<Rightarrow> 'r \<times> 'o) \<Rightarrow> sched
     \<Rightarrow> cache_state \<times> 'o response \<Rightarrow> cache_state \<times> 'o response"
where
  "step originalWrite originalEnd e w =
     (case e of
        HandlerWrite args \<Rightarrow> (fst w, snd (res_write originalWrite args (snd w)))
      | HandlerEnd args \<Rightarrow> (fst w, snd (res_end originalEnd args (snd w)))
      | Finish \<Rightarrow> (fst w, res_finish (snd w))
      | Settle \<Rightarrow> settle w
      | StoreFails \<Rightarrow> ((fst w)\<lparr>rejecting := True\<rparr>, snd w)
      | StoreRecovers \<Rightarrow> ((fst w)\<lparr>rejecting := False\<rparr>, snd w))"

definition exec ::
  "(js_value list \<Rightarrow> 'o \<Rightarrow> 'r \<times> 'o) \<Rightarrow> (js_value list \<Rightarrow> 'o \<Rightarrow> 'r \<times> 'o) \<Rightarrow> sched list
     \<Rightarrow> cache_state \<times> 'o response \<Rightarrow> cache_state \<times> 'o response"
where
  "exec originalWrite originalEnd es w = foldl (\<lambda>w e. step originalWrite originalEnd e w) w es"

text \<open>The values the handler gets back from its calls of \<^verbatim>\<open>res.write\<close> and \<^verbatim>\<open>res.end\<close>, in order.\<close>

fun exec_returns ::
  "(js_value list \<Rightarrow> 'o \<Rightarrow> 'r \<times> 'o) \<Rightarrow> (js_value list \<Rightarrow> 'o \<Rightarrow> 'r \<times> 'o) \<Rightarrow> sched list
     \<Rightarrow> cache_state \<times> 'o response \<Rightarrow> 'r list"
where
  "exec_returns originalWrite originalEnd [] w = []"
| "exec_returns originalWrite originalEnd (e # es) w =
     (case e of
        HandlerWrite args \<Rightarrow> [fst (res_write originalWrite args (snd w))]
      | HandlerEnd args \<Rightarrow> [fst (res_end originalEnd args (snd w))]
      | _ \<Rightarrow> [])
     @ exec_returns originalWrite originalEnd es (step originalWrite originalEnd e w)"


section \<open>Views of a schedule and of the state\<close>

text \<open>The tasks a schedule pushes onto the queue, in the order of the pushes.\<close>

fun pushed :: "sched list \<Rightarrow> task list" where
  "pushed [] = []"
| "pushed (HandlerWrite args # es) =
     (if arg0 args \<noteq> JUndefined then [CacheChunk (arg0 args)] else []) @ pushed es"
| "pushed (HandlerEnd args # es) =
     (if arg0 args \<noteq> JUndefined then [CacheChunk (arg0 args)] else []) @ pushed es"
| "pushed (Finish # es) = SealChunks # pushed es"
| "pushed (Settle # es) = pushed es"
| "pushed (StoreFails # es) = pushed es"
| "pushed (StoreRecovers # es) = pushed es"



text \<open>
  What the original \<^verbatim>\<open>write\<close> and \<^verbatim>\<open>end\<close> make of the handler's calls when nothing is
  intercepted: the real output, and the values returned to the handler.
\<close>

fun handler_output ::
  "(js_value list \<Rightarrow> 'o \<Rightarrow> 'r \<times> 'o) \<Rightarrow> (js_value list \<Rightarrow> 'o \<Rightarrow> 'r \<times> 'o) \<Rightarrow> sched list \<Rightarrow> 'o \<Rightarrow> 'o"
where
  "handler_output originalWrite originalEnd [] ou = ou"
| "handler_output originalWrite originalEnd (HandlerWrite args # es) ou =
     handler_output originalWrite originalEnd es (snd (originalWrite args ou))"
| "handler_output originalWrite originalEnd (HandlerEnd args # es) ou =
     handler_output originalWrite originalEnd es (snd (originalEnd args ou))"
| "handler_output originalWrite originalEnd (Finish # es) ou =
     handler_output originalWrite originalEnd es ou"
| "handler_output originalWrite originalEnd (Settle # es) ou =
     handler_output originalWrite originalEnd es ou"
| "handler_output originalWrite originalEnd (StoreFails # es) ou =
     handler_output originalWrite originalEnd es ou"
| "handler_output originalWrite originalEnd (StoreRecovers # es) ou =
     handler_output originalWrite originalEnd es ou"

fun handler_returns ::
  "(js_value list \<Rightarrow> 'o \<Rightarrow> 'r \<times> 'o) \<Rightarrow> (js_value list \<Rightarrow> 'o \<Rightarrow> 'r \<times> 'o) \<Rightarrow> sched list \<Rightarrow> 'o
     \<Rightarrow> 'r list"
where
  "handler_returns originalWrite originalEnd [] ou = []"
| "handler_returns originalWrite originalEnd (HandlerWrite args # es) ou =
     fst (originalWrite args ou)
       # handler_returns originalWrite originalEnd es (snd (originalWrite args ou))"
| "handler_returns originalWrite originalEnd (HandlerEnd args # es) ou =
     fst (originalEnd args ou)
       # handler_returns originalWrite originalEnd es (snd (originalEnd args ou))"
| "handler_returns originalWrite originalEnd (Finish # es) ou =
     handler_returns originalWrite originalEnd es ou"
| "handler_returns originalWrite originalEnd (Settle # es) ou =
     handler_returns originalWrite originalEnd es ou"
| "handler_returns originalWrite originalEnd (StoreFails # es) ou =
     handler_returns originalWrite originalEnd es ou"
| "handler_returns originalWrite originalEnd (StoreRecovers # es) ou =
     handler_returns originalWrite originalEnd es ou"







section \<open>Concrete requests and stores\<close>

definition example_options :: options where
  "example_options =
     \<lparr>debug = False, maxAge = None, defaultGetCacheKey = originalUrl,
      getCacheKey = (\<lambda>req normalizedPath. normalizedPath), getCacheTag = None\<rparr>"

definition example_get :: request where
  "example_get = \<lparr>req_method = ''GET'', originalUrl = ''/hello''\<rparr>"

definition example_post :: request where
  "example_post = \<lparr>req_method = ''POST'', originalUrl = ''/hello''\<rparr>"

definition empty_store :: cache_state where
  "empty_store =
     \<lparr>responseBucket = Map.empty, chunkBucket = Map.empty, cacheKeyBucket = Map.empty,
      rejecting = False\<rparr>"

text \<open>
  A sealed response whose only chunk is stored, the same with the chunk gone, and the same
  on a backend that rejects.
\<close>

definition sealed_store :: cache_state where
  "sealed_store =
     \<lparr>responseBucket = [''/hello'' \<mapsto> (\<lparr>isSealed = True, chunks = [(''r0'', 0)]\<rparr>, None)],
      chunkBucket = [(''r0'', 0) \<mapsto> (JString ''Hello'', None)],
      cacheKeyBucket = Map.empty,
      rejecting = False\<rparr>"



text \<open>A response whose output records the argument lists written to it.\<close>

definition fresh_response :: "js_value list list response" where
  "fresh_response = \<lparr>aggressiveCache = [], capture = None, cache_control = None, out = []\<rparr>"

text \<open>The same response with the header \<^verbatim>\<open>Cache-Control: no-store\<close>.\<close>

definition no_store_response :: "js_value list list response" where
  "no_store_response = fresh_response\<lparr>cache_control := Some [''no-store'' \<mapsto> JBool True]\<rparr>"

definition socket_write :: "js_value list \<Rightarrow> js_value list list \<Rightarrow> js_value \<times> js_value list list" where
  "socket_write args ou = (JBool True, ou @ [args])"

definition socket_end :: "js_value list \<Rightarrow> js_value list list \<Rightarrow> js_value \<times> js_value list list" where
  "socket_end args ou = (JObject, ou @ [args])"

section \<open>Properties of should-cache.ts\<close>

lemma getProp_simps:
  "obj k = None \<Longrightarrow> getProp obj k = JUndefined"
  "obj k = Some v \<Longrightarrow> getProp obj k = v"
  by (simp_all add: getProp_def)

text \<open>
  C5. \<^verbatim>\<open>shouldCache\<close> is a function of the directive map alone. It returns false exactly when
  a map is present and one of \<^verbatim>\<open>no-cache\<close>, \<^verbatim>\<open>no-store\<close>, \<^verbatim>\<open>private\<close> is truthy or \<^verbatim>\<open>max-age\<close> is the
  number 0; for the absent map (\<^verbatim>\<open>null\<close>) it returns true.
\<close>

theorem shouldCache_false_iff:
  "(shouldCache cacheControl = False) =
     (\<exists>cc. cacheControl = Some cc \<and>
        (truthy (getProp cc ''no-cache'') \<or> truthy (getProp cc ''no-store'') \<or>
         truthy (getProp cc ''private'') \<or> getProp cc ''max-age'' = JNum 0))
   \<and> shouldCache None = True"
  by (cases cacheControl) (simp_all add: shouldCache_def strictEqualsNum_def Let_def)

text \<open>
  C9. Only the number 0 as \<^verbatim>\<open>max-age\<close> blocks caching: when none of \<^verbatim>\<open>no-cache\<close>, \<^verbatim>\<open>no-store\<close>,
  \<^verbatim>\<open>private\<close> is truthy, any other value of \<^verbatim>\<open>max-age\<close> leaves the response cacheable, and so
  do the string \<^verbatim>\<open>"0"\<close> and every negative number.
\<close>

theorem shouldCache_max_age_strict:
  assumes "\<not> truthy (getProp cc ''no-cache'')"
    and "\<not> truthy (getProp cc ''no-store'')"
    and "\<not> truthy (getProp cc ''private'')"
  shows "(getProp cc ''max-age'' \<noteq> JNum 0 \<longrightarrow> shouldCache (Some cc))
       \<and> (getProp cc ''max-age'' = JString ''0'' \<longrightarrow> shouldCache (Some cc))
       \<and> (\<forall>r. r < 0 \<longrightarrow> getProp cc ''max-age'' = JNum r \<longrightarrow> shouldCache (Some cc))
       \<and> (getProp cc ''max-age'' = JNum 0 \<longrightarrow> \<not> shouldCache (Some cc))"
  using assms by (auto simp add: shouldCache_def strictEqualsNum_def Let_def)

theorem shouldCache_max_age_strict_witness:
  "shouldCache (Some [''max-age'' \<mapsto> JString ''0''])
   \<and> shouldCache (Some [''max-age'' \<mapsto> JNum (- 5)])
   \<and> shouldCache (Some [''max-age'' \<mapsto> JNum 3600, ''no-cache'' \<mapsto> JBool False])
   \<and> \<not> shouldCache (Some [''max-age'' \<mapsto> JNum 0])"
proof -
  have a: "shouldCache (Some [''max-age'' \<mapsto> JString ''0''])"
    using shouldCache_max_age_strict [of "[''max-age'' \<mapsto> JString ''0'']"]
    by (simp add: getProp_def)
  have b: "shouldCache (Some [''max-age'' \<mapsto> JNum (- 5)])"
    using shouldCache_max_age_strict [of "[''max-age'' \<mapsto> JNum (- 5)]"]
    by (simp add: getProp_def)
  have c: "shouldCache (Some [''max-age'' \<mapsto> JNum 3600, ''no-cache'' \<mapsto> JBool False])"
    using shouldCache_max_age_strict
            [of "[''max-age'' \<mapsto> JNum 3600, ''no-cache'' \<mapsto> JBool False]"]
    by (simp add: getProp_def)
  have d: "\<not> shouldCache (Some [''max-age'' \<mapsto> JNum 0])"
    using shouldCache_max_age_strict [of "[''max-age'' \<mapsto> JNum 0]"]
    by (simp add: getProp_def)
  from a b c d show ?thesis by simp
qed

section \<open>Properties of purge\<close>

text \<open>
  C8. For every cache tag and every state of the buckets, \<^verbatim>\<open>purge\<close> fails: its result is an
  error whose message names the tag and says "not implemented", it is never a success, and
  the three buckets are left as they were.
\<close>

theorem purge_not_implemented:
  "(\<exists>msg. fst (purge cacheTag st) = Inl (Error msg)
          \<and> sublist ''not implemented'' msg \<and> sublist cacheTag msg)
   \<and> (\<forall>u. fst (purge cacheTag st) \<noteq> Inr u)
   \<and> snd (purge cacheTag st) = st"
proof -
  let ?msg = "''purge for cache tag '' @ cacheTag @
              '' not implemented - API could still change - do not use''"
  have "sublist ''not implemented'' ?msg"
    unfolding sublist_def
    by (rule exI [of _ "''purge for cache tag '' @ cacheTag @ '' ''"],
        rule exI [of _ "'' - API could still change - do not use''"]) simp
  moreover have "sublist cacheTag ?msg"
    unfolding sublist_def by blast
  ultimately show ?thesis
    by (simp add: purge_def)
qed

section \<open>Properties of the middleware decision\<close>



lemma example_key:
  "req_method example_get = ''GET''"
  "req_method example_post \<noteq> ''GET''"
  "getCacheKey example_options example_get (defaultGetCacheKey example_options example_get)
     = ''/hello''"
  by (simp_all add: example_options_def example_get_def example_post_def)



text \<open>
  C4. For a request whose HTTP verb is not GET the middleware reads no bucket (no lookup of the
  response bucket, no existence check of chunks, no replay), writes no bucket, leaves the
  response object as it was (its \<^verbatim>\<open>write\<close> and \<^verbatim>\<open>end\<close> are not replaced, no finish listener is
  registered), and ends by calling the handler; its promise resolves, whatever the store.
\<close>

theorem middleware_non_get_bypass:
  assumes "req_method req \<noteq> ''GET''"
  shows "\<exists>evs st' res'. middleware opts rid req (st, res) = Inr (evs, st', res')
           \<and> (\<forall>k. ResponseBucketGet k \<notin> set evs) \<and> (\<forall>cs. ChunkBucketHas cs \<notin> set evs)
           \<and> (\<forall>cr. ReturnCachedResponse cr \<notin> set evs)
           \<and> (\<forall>t k. CacheKeyBucketSet t k \<notin> set evs)
           \<and> st' = st \<and> res' = res \<and> last evs = Next"
  using assms
  by (simp add: middleware_def handleNonGetRequestsAsCacheMiss_def log_def)

theorem middleware_non_get_bypass_witness:
  "\<exists>evs. middleware example_options ''r1'' example_post (sealed_store, fresh_response)
            = Inr (evs, sealed_store, fresh_response)
         \<and> last evs = Next"
  using middleware_non_get_bypass
          [OF example_key(2), where opts = example_options and rid = "''r1''"
             and st = sealed_store and res = fresh_response]
  by auto

text \<open>
  C10. For a request whose HTTP verb is not GET, \<^verbatim>\<open>onCacheMiss\<close> is called exactly once, and the
  call of the handler comes right after it: the events are an optional log line, then
  \<^verbatim>\<open>onCacheMiss\<close>, then \<^verbatim>\<open>next()\<close>.
\<close>

theorem middleware_non_get_onCacheMiss_once:
  assumes "req_method req \<noteq> ''GET''"
  shows "\<exists>pre st' res'. middleware opts rid req (st, res) = Inr (pre @ [OnCacheMiss, Next], st', res')
           \<and> OnCacheMiss \<notin> set pre \<and> Next \<notin> set pre
           \<and> length (filter (\<lambda>e. e = OnCacheMiss) (pre @ [OnCacheMiss, Next])) = 1"
  using assms
  by (simp add: middleware_def handleNonGetRequestsAsCacheMiss_def log_def)

theorem middleware_non_get_onCacheMiss_once_witness:
  "\<exists>st' res'. middleware example_options ''r1'' example_post (sealed_store, fresh_response)
     = Inr ([OnCacheMiss, Next], st', res')"
proof -
  from middleware_non_get_onCacheMiss_once
         [OF example_key(2), where opts = example_options and rid = "''r1''"
            and st = sealed_store and res = fresh_response]
  obtain pre st' res' where pre:
    "middleware example_options ''r1'' example_post (sealed_store, fresh_response)
       = Inr (pre @ [OnCacheMiss, Next], st', res')" by blast
  have "length (fst (projr (middleware example_options ''r1'' example_post
                              (sealed_store, fresh_response)))) = 2"
    by (simp add: middleware_def handleNonGetRequestsAsCacheMiss_def log_def example_options_def
          example_post_def)
  with pre show ?thesis by simp
qed

section \<open>Properties of the capture hooks\<close>


lemma pending_push_run: "pending (run (push t q)) = pending q @ [t]"
  by (auto simp add: pending_def run_def push_def drain_next_def
      split: list.splits option.splits)







text \<open>A task changes neither the hooks nor the headers nor the real output.\<close>

lemma run_task_frame:
  assumes "run_task s t w = Inr w'"
  shows "capture (snd w') = capture (snd w)" "cache_control (snd w') = cache_control (snd w)"
    "out (snd w') = out (snd w)" "rejecting (fst w') = rejecting (fst w)"
    "cacheKeyBucket (fst w') = cacheKeyBucket (fst w)"
  using assms
  by (cases w; cases t;
      auto simp add: run_task_def cacheChunk_def sealChunks_def store_set_def Let_def
        split: if_splits)+

lemma settle_out: "out (snd (settle w)) = out (snd w)"
  by (auto simp add: settle_def dest: run_task_frame(3) split: option.splits sum.splits)

lemma step_out_not_handler:
  "e \<in> {Finish, Settle, StoreFails, StoreRecovers}
     \<Longrightarrow> out (snd (step ow oe e w)) = out (snd w)"
  by (auto simp add: step_def settle_out res_finish_def split: option.splits)

text \<open>
  C6. The functions installed as \<^verbatim>\<open>res.write\<close> and \<^verbatim>\<open>res.end\<close> return what the original function
  returns for the same arguments and act on the real output as the original does, whatever
  the state of the session and its queue. Over a whole schedule, with the store operations
  completing at any moments, the store rejecting at any moments and tasks failing for it,
  the real output is what the original functions make of the handler's calls alone, and the
  handler gets back from each call what the original returns.
\<close>

theorem capture_forwards_unchanged:
  "fst (write_override originalWrite args (s, ou)) = fst (originalWrite args ou)
   \<and> snd (snd (write_override originalWrite args (s, ou))) = snd (originalWrite args ou)
   \<and> fst (end_override originalEnd args (s, ou)) = fst (originalEnd args ou)
   \<and> snd (snd (end_override originalEnd args (s, ou))) = snd (originalEnd args ou)
   \<and> out (snd (exec originalWrite originalEnd es (st, res\<lparr>capture := Some s\<rparr>)))
       = handler_output originalWrite originalEnd es (out res)
   \<and> exec_returns originalWrite originalEnd es (st, res\<lparr>capture := Some s\<rparr>)
       = handler_returns originalWrite originalEnd es (out res)"
proof -
  have run: "out (snd (exec originalWrite originalEnd es w))
               = handler_output originalWrite originalEnd es (out (snd w))
             \<and> exec_returns originalWrite originalEnd es w
               = handler_returns originalWrite originalEnd es (out (snd w))" for w
  proof (induction es arbitrary: w)
    case Nil
    show ?case by (simp add: exec_def)
  next
    case (Cons e es)
    have unfold: "exec originalWrite originalEnd (e # es) w
                    = exec originalWrite originalEnd es (step originalWrite originalEnd e w)"
      by (simp add: exec_def)
    show ?case
    proof (cases "e \<in> {Finish, Settle, StoreFails, StoreRecovers}")
      case True
      from step_out_not_handler [OF True, of originalWrite originalEnd w] True
      show ?thesis
        unfolding unfold using Cons.IH [of "step originalWrite originalEnd e w"] by auto
    next
      case False
      then consider args where "e = HandlerWrite args" | args where "e = HandlerEnd args"
        by (cases e) auto
      then show ?thesis
      proof cases
        case 1
        then show ?thesis
          unfolding unfold using Cons.IH [of "step originalWrite originalEnd e w"]
          by (simp add: step_def res_write_def write_override_def
              split: option.splits prod.splits)
      next
        case 2
        then show ?thesis
          unfolding unfold using Cons.IH [of "step originalWrite originalEnd e w"]
          by (simp add: step_def res_end_def end_override_def
              split: option.splits prod.splits)
      qed
    qed
  qed
  show ?thesis
    using run [of "(st, res\<lparr>capture := Some s\<rparr>)"]
    by (simp add: write_override_def end_override_def split: prod.splits)
qed

text \<open>
  C7, as the code has it. \<^verbatim>\<open>onWrite\<close> schedules a task for a chunk exactly when the chunk is
  not \<^verbatim>\<open>undefined\<close>: then the task is appended behind the pending ones, otherwise the session
  is left as it was. A zero-length string or buffer is scheduled, and so is \<^verbatim>\<open>null\<close>, which
  passes the guard \<^verbatim>\<open>chunk !== undefined\<close>.
\<close>

theorem onWrite_schedules_iff_defined:
  "(pending (chunkQueue (onWrite chunk s)) = pending (chunkQueue s) @ [CacheChunk chunk])
      = (chunk \<noteq> JUndefined)
   \<and> (chunk = JUndefined \<longrightarrow> onWrite chunk s = s)
   \<and> pending (chunkQueue (onWrite (JString []) s)) = pending (chunkQueue s) @ [CacheChunk (JString [])]
   \<and> pending (chunkQueue (onWrite (JBuffer []) s)) = pending (chunkQueue s) @ [CacheChunk (JBuffer [])]
   \<and> pending (chunkQueue (onWrite JNull s)) = pending (chunkQueue s) @ [CacheChunk JNull]"
  by (simp add: onWrite_def pending_push_run)

theorem onWrite_schedules_iff_defined_witness:
  "pending (chunkQueue (onWrite (JString []) (getChunkFunctions example_options ''r1'' ''/hello'')))
     = [CacheChunk (JString [])]
   \<and> onWrite JUndefined (getChunkFunctions example_options ''r1'' ''/hello'')
     = getChunkFunctions example_options ''r1'' ''/hello''"
  using onWrite_schedules_iff_defined
          [where chunk = "JString []" and s = "getChunkFunctions example_options ''r1'' ''/hello''"]
        onWrite_schedules_iff_defined
          [where chunk = JUndefined and s = "getChunkFunctions example_options ''r1'' ''/hello''"]
  by (simp add: getChunkFunctions_def new_Queue_def pending_def)

text \<open>
  The claim C7 as stated fails for \<^verbatim>\<open>null\<close>: on a fresh session, \<^verbatim>\<open>onWrite(null)\<close> schedules a
  task.
\<close>

theorem onWrite_null_counterexample:
  "pending (chunkQueue (getChunkFunctions example_options ''r1'' ''/hello'')) = []
   \<and> pending (chunkQueue (onWrite JNull (getChunkFunctions example_options ''r1'' ''/hello'')))
       = [CacheChunk JNull]
   \<and> running (chunkQueue (onWrite JNull (getChunkFunctions example_options ''r1'' ''/hello'')))
       = Some (CacheChunk JNull)"
  by (simp add: onWrite_def getChunkFunctions_def new_Queue_def push_def run_def drain_next_def
        pending_def)



lemmas eval_defs =
  exec_def step_def settle_def res_write_def res_end_def res_finish_def write_override_def
  end_override_def onWrite_def onFinish_def arg0_def push_def run_def drain_next_def
  report_failure_def run_task_def cacheChunk_def sealChunks_def store_set_def isPayload_def
  shouldCache_def timeToLive_def responseMaxAge_def getChunkFunctions_def new_Queue_def
  example_options_def empty_store_def fresh_response_def no_store_response_def
  socket_write_def socket_end_def storeError_def getProp_def strictEqualsNum_def Let_def

text \<open>
  A schedule in which the first chunk task fails, because the store rejects when it
  completes: the failure is reported by the queue, and the output is untouched by it.
\<close>

theorem capture_forwards_unchanged_witness:
  "out (snd (exec socket_write socket_end
               [HandlerWrite [JString ''He''], StoreFails, Settle, StoreRecovers,
                HandlerEnd [JString ''llo''], Finish, Settle, Settle]
               (empty_store,
                fresh_response\<lparr>capture :=
                  Some (getChunkFunctions example_options ''r1'' ''/hello'')\<rparr>)))
     = [[JString ''He''], [JString ''llo'']]
   \<and> exec_returns socket_write socket_end
        [HandlerWrite [JString ''He''], StoreFails, Settle, StoreRecovers,
         HandlerEnd [JString ''llo''], Finish, Settle, Settle]
        (empty_store,
         fresh_response\<lparr>capture := Some (getChunkFunctions example_options ''r1'' ''/hello'')\<rparr>)
     = [JBool True, JObject]
   \<and> (\<exists>s. capture (snd (exec socket_write socket_end
                           [HandlerWrite [JString ''He''], StoreFails, Settle, StoreRecovers,
                            HandlerEnd [JString ''llo''], Finish, Settle, Settle]
                           (empty_store,
                            fresh_response\<lparr>capture :=
                              Some (getChunkFunctions example_options ''r1'' ''/hello'')\<rparr>)))
            = Some s
          \<and> reported (chunkQueue s) = [(CacheChunk (JString ''He''), storeError)])"
proof -
  have failed: "\<exists>s. capture (snd (exec socket_write socket_end
                           [HandlerWrite [JString ''He''], StoreFails, Settle, StoreRecovers,
                            HandlerEnd [JString ''llo''], Finish, Settle, Settle]
                           (empty_store,
                            fresh_response\<lparr>capture :=
                              Some (getChunkFunctions example_options ''r1'' ''/hello'')\<rparr>)))
            = Some s
          \<and> reported (chunkQueue s) = [(CacheChunk (JString ''He''), storeError)]"
    by (simp add: eval_defs)
  from capture_forwards_unchanged
         [where originalWrite = socket_write and originalEnd = socket_end
            and es = "[HandlerWrite [JString ''He''], StoreFails, Settle, StoreRecovers,
                       HandlerEnd [JString ''llo''], Finish, Settle, Settle]"
            and st = empty_store and res = fresh_response
            and s = "getChunkFunctions example_options ''r1'' ''/hello''"]
  have "out (snd (exec socket_write socket_end
               [HandlerWrite [JString ''He''], StoreFails, Settle, StoreRecovers,
                HandlerEnd [JString ''llo''], Finish, Settle, Settle]
               (empty_store,
                fresh_response\<lparr>capture :=
                  Some (getChunkFunctions example_options ''r1'' ''/hello'')\<rparr>)))
     = [[JString ''He''], [JString ''llo'']]
   \<and> exec_returns socket_write socket_end
        [HandlerWrite [JString ''He''], StoreFails, Settle, StoreRecovers,
         HandlerEnd [JString ''llo''], Finish, Settle, Settle]
        (empty_store,
         fresh_response\<lparr>capture := Some (getChunkFunctions example_options ''r1'' ''/hello'')\<rparr>)
     = [JBool True, JObject]"
    by (simp add: socket_write_def socket_end_def fresh_response_def)
  with failed show ?thesis by simp
qed

section \<open>The queue completes tasks in the order of the pushes\<close>




lemma pushed_replicate_Settle: "pushed (replicate n Settle) = []"
  by (induction n) simp_all














section \<open>What a sequence of tasks leaves in the buckets\<close>














section \<open>A capture session from miss to seal\<close>











end
